theory Spec2Isabelle
  imports Complex_Main "HOL-Library.Sublist" "HOL-Library.AList"
begin

section \<open>JavaScript values\<close>

text \<open>
  The values that reach the program are JSON: the fields of a request body
  parsed by \<^verbatim>\<open>express.json()\<close> and the parsed body of an upstream response.
  A JSON number is represented by its rational value; the program only tests
  numbers for truthiness and converts them to strings.
  An object is the list of its own properties; the first binding of a name is
  the property's value.
\<close>

datatype jsval =
    JUndefined
  | JNull
  | JBool bool
  | JNum rat
  | JStr string
  | JArr "jsval list"
  | JObj "(string \<times> jsval) list"

text \<open>ToBoolean: what \<^verbatim>\<open>!x\<close>, \<^verbatim>\<open>if (x)\<close> and \<^verbatim>\<open>x || y\<close> test.\<close>

fun truthy :: "jsval \<Rightarrow> bool" where
  "truthy JUndefined = False"
| "truthy JNull = False"
| "truthy (JBool b) = b"
| "truthy (JNum r) = (r \<noteq> 0)"
| "truthy (JStr s) = (s \<noteq> [])"
| "truthy (JArr xs) = True"
| "truthy (JObj kvs) = True"

text \<open>\<^verbatim>\<open>a || b\<close> on values.\<close>

definition js_or :: "jsval \<Rightarrow> jsval \<Rightarrow> jsval" where
  "js_or a b = (if truthy a then a else b)"

text \<open>
  An environment variable is an optional string: absent is \<^verbatim>\<open>undefined\<close>,
  and the empty string is falsy as well.
\<close>

fun truthy_str :: "string option \<Rightarrow> bool" where
  "truthy_str None = False"
| "truthy_str (Some s) = (s \<noteq> [])"

text \<open>
  A value of \<^verbatim>\<open>req.query\<close>: a string when the parameter occurs once
  (\<^verbatim>\<open>?state=a\<close>, and \<^verbatim>\<open>?state=\<close> for the empty string), an array when it is
  repeated (\<^verbatim>\<open>?state=a&state=b\<close>), an object when it is bracketed
  (\<^verbatim>\<open>?state[k]=a\<close>). A parameter the query lacks is \<^verbatim>\<open>undefined\<close>.
  Arrays and objects are truthy.
\<close>

datatype qparam =
    QString string
  | QArray "qparam list"
  | QObject "(string \<times> qparam) list"

fun truthy_q :: "qparam option \<Rightarrow> bool" where
  "truthy_q None = False"
| "truthy_q (Some (QString s)) = (s \<noteq> [])"
| "truthy_q (Some (QArray xs)) = True"
| "truthy_q (Some (QObject kvs)) = True"

text \<open>A thrown value: the error's class name and its message.\<close>

datatype js_exception = Exception (err_name: string) (message: string)

text \<open>
  Property read \<^verbatim>\<open>v.name\<close>, for the names this program reads
  (\<^verbatim>\<open>payment_id\<close>, \<^verbatim>\<open>url\<close>, \<^verbatim>\<open>session_id\<close>, \<^verbatim>\<open>status\<close>), none of
  which is a built-in property of strings, numbers, booleans or arrays.
  Reading a property of \<^verbatim>\<open>null\<close> or \<^verbatim>\<open>undefined\<close> throws a TypeError.
\<close>

fun get_prop :: "jsval \<Rightarrow> string \<Rightarrow> js_exception + jsval" where
  "get_prop JUndefined name =
     Inl (Exception ''TypeError'' (''Cannot read properties of undefined (reading '' @ [CHR 0x27] @ name @ [CHR 0x27] @ '')''))"
| "get_prop JNull name =
     Inl (Exception ''TypeError'' (''Cannot read properties of null (reading '' @ [CHR 0x27] @ name @ [CHR 0x27] @ '')''))"
| "get_prop (JObj kvs) name =
     Inr (case map_of kvs name of None \<Rightarrow> JUndefined | Some v \<Rightarrow> v)"
| "get_prop v name = Inr JUndefined"

text \<open>Decimal rendering of a non-negative integer, as a template literal prints it.\<close>

definition digit :: "nat \<Rightarrow> char" where
  "digit d = ''0123456789'' ! d"

function dec :: "nat \<Rightarrow> string" where
  "dec n = (if n < 10 then [digit n] else dec (n div 10) @ [digit (n mod 10)])"
  by pat_completeness auto
termination
  by (relation "measure (\<lambda>n. n)") auto

declare dec.simps [simp del]

section \<open>Environment\<close>

text \<open>
  What the program reads from outside itself: the process configuration, the
  \<^verbatim>\<open>jsonwebtoken\<close> library, \<^verbatim>\<open>fetch\<close>, and the JavaScript built-ins
  \<^verbatim>\<open>JSON.parse\<close>, number and object to string conversion and
  \<^verbatim>\<open>Date.prototype.toISOString\<close>.
\<close>

record jwt_payload =
  iss :: string
  aud :: string
  iat :: nat
  exp_time :: nat

record jwt_header =
  alg :: string
  typ_field :: string
  kid :: string

record fetch_request =
  url :: string
  http_method :: string
  authorization :: string
  content_type :: string
  body :: "jsval option"  \<comment> \<open>the value given to \<^verbatim>\<open>JSON.stringify\<close>, when there is one\<close>

record response =
  ok :: bool
  status_code :: nat
  body_text :: string

text \<open>
  \<^verbatim>\<open>fetch\<close> resolves with a response, or rejects when none is received; the
  program does not look at what it rejects with.
\<close>

datatype fetch_outcome = Rejected js_exception | Responded response

record env =
  APP_ID :: "string option"
  PRIVATE_KEY :: "string option"
  REDIRECT_URL :: string
  jwt_sign :: "jwt_payload \<Rightarrow> string \<Rightarrow> jwt_header \<Rightarrow> js_exception + string"
  fetch :: "fetch_request \<Rightarrow> fetch_outcome"
  JSON_parse :: "string \<Rightarrow> js_exception + jsval"  \<comment> \<open>\<open>Inl\<close>: the SyntaxError thrown\<close>
  number_toString :: "rat \<Rightarrow> string"
  object_toString :: "jsval \<Rightarrow> js_exception + string"
  toISOString :: "nat \<Rightarrow> string"

definition API_BASE_URL :: string where
  "API_BASE_URL = ''https://api.enablebanking.com''"

text \<open>
  String conversion of a value (\<^verbatim>\<open>amount.toString()\<close>, \<^verbatim>\<open>${payment.sessionId}\<close>),
  used on truthy values only. Arrays and objects convert through their
  \<^verbatim>\<open>toString\<close> property, which a JSON object may shadow with a value that
  is not callable, so the conversion can throw.
\<close>

fun toString :: "env \<Rightarrow> jsval \<Rightarrow> js_exception + string" where
  "toString e (JStr s) = Inr s"
| "toString e (JBool b) = Inr (if b then ''true'' else ''false'')"
| "toString e (JNum r) = Inr (number_toString e r)"
| "toString e v = object_toString e v"

section \<open>Assertion signer and upstream client\<close>

text \<open>The two source variants: \<^verbatim>\<open>src/server.js\<close> and \<^verbatim>\<open>src/unnamed/part_000\<close>.\<close>

datatype variant = ServerJs | Part000

definition jwt_payload_at :: "nat \<Rightarrow> jwt_payload" where
  "jwt_payload_at date_now =
     (let now = date_now div 1000 in
      \<lparr>iss = ''enablebanking.com'', aud = ''api.enablebanking.com'',
       iat = now, exp_time = now + 3600\<rparr>)"

definition generateJWT :: "env \<Rightarrow> nat \<Rightarrow> js_exception + string" where
  "generateJWT e date_now =
     (if \<not> truthy_str (PRIVATE_KEY e) \<or> \<not> truthy_str (APP_ID e)
      then Inl (Exception ''Error'' ''Missing Enable Banking credentials'')
      else jwt_sign e (jwt_payload_at date_now) (the (PRIVATE_KEY e))
             \<lparr>alg = ''RS256'', typ_field = ''JWT'', kid = the (APP_ID e)\<rparr>)"

text \<open>
  The last step of \<^verbatim>\<open>enableBankingRequest\<close>. \<^verbatim>\<open>server.js\<close> returns
  \<^verbatim>\<open>response.json()\<close>, which rejects when the body is not JSON;
  \<^verbatim>\<open>part_000\<close> catches the error of \<^verbatim>\<open>JSON.parse(responseText)\<close> and returns
  \<^verbatim>\<open>{ raw: responseText }\<close>.
\<close>

definition parse_body :: "variant \<Rightarrow> env \<Rightarrow> string \<Rightarrow> js_exception + jsval" where
  "parse_body v e txt =
     (case v of
        ServerJs \<Rightarrow> JSON_parse e txt
      | Part000 \<Rightarrow>
          (case JSON_parse e txt of
             Inr j \<Rightarrow> Inr j
           | Inl err \<Rightarrow> Inr (JObj [(''raw'', JStr txt)])))"

text \<open>
  \<^verbatim>\<open>enableBankingRequest(method, path, body = null)\<close>. The list of requests is
  the record of calls made to \<^verbatim>\<open>fetch\<close>; the function returns it extended when
  it calls; \<open>fetch_options\<close> is the \<^verbatim>\<open>options\<close> object with the URL. \<open>date_now\<close> is the reading of \<^verbatim>\<open>Date.now()\<close> inside
  \<^verbatim>\<open>generateJWT\<close>.
\<close>

definition fetch_options :: "string \<Rightarrow> string \<Rightarrow> jsval \<Rightarrow> string \<Rightarrow> fetch_request" where
  "fetch_options meth path bdy token =
     \<lparr>url = API_BASE_URL @ path, http_method = meth,
      authorization = ''Bearer '' @ token,
      content_type = ''application/json'',
      body = (if truthy bdy then Some bdy else None)\<rparr>"

definition enableBankingRequest ::
  "variant \<Rightarrow> env \<Rightarrow> nat \<Rightarrow> string \<Rightarrow> string \<Rightarrow> jsval \<Rightarrow> fetch_request list
     \<Rightarrow> (js_exception + jsval) \<times> fetch_request list" where
  "enableBankingRequest v e date_now meth path bdy cs =
     (case generateJWT e date_now of
        Inl err \<Rightarrow> (Inl err, cs)
      | Inr token \<Rightarrow>
          (let options = fetch_options meth path bdy token;
               cs' = cs @ [options]
           in case fetch e options of
                Rejected err \<Rightarrow> (Inl err, cs')
              | Responded r \<Rightarrow>
                  if \<not> ok r
                  then (Inl (Exception ''Error''
                          (''API error: '' @ dec (status_code r) @ '' - '' @ body_text r)), cs')
                  else (parse_body v e (body_text r), cs')))"

section \<open>Session store\<close>

record payment =
  id_field :: jsval
  amount :: jsval
  creditorIban :: jsval
  creditorName :: jsval
  reference :: jsval
  bankName :: jsval
  bankCountry :: jsval
  status :: jsval
  authUrl :: jsval
  createdAt :: string
  sessionId :: jsval
  authCode :: "qparam option"  \<comment> \<open>\<open>None\<close>: not set, or set to \<^verbatim>\<open>undefined\<close>\<close>

text \<open>
  \<^verbatim>\<open>payments\<close> is a JavaScript \<^verbatim>\<open>Map\<close>: its entries in insertion order.
  Keys are compared by SameValueZero: strings, numbers and booleans by value,
  while an array or an object is equal to itself only. The only arrays and
  objects used as keys come out of a response that was just parsed, so they
  are equal to no key already in the map.
\<close>

type_synonym payments_map = "(jsval \<times> payment) list"

fun is_ref :: "jsval \<Rightarrow> bool" where
  "is_ref (JArr xs) = True"
| "is_ref (JObj kvs) = True"
| "is_ref v = False"

definition Map_get :: "payments_map \<Rightarrow> jsval \<Rightarrow> payment option" where
  "Map_get m k = (if is_ref k then None else map_of m k)"

definition Map_set :: "payments_map \<Rightarrow> jsval \<Rightarrow> payment \<Rightarrow> payments_map" where
  "Map_set m k p = (if is_ref k then m @ [(k, p)] else AList.update k p m)"

text \<open>
  Each entry a route stores is keyed by the id of its payment; the routes keep
  this (lemmas \<open>createPayment_keyed\<close>, \<open>getStatus_keyed\<close>, \<open>handleCallback_keyed\<close>).
\<close>

definition keyed_by_id :: "payments_map \<Rightarrow> bool" where
  "keyed_by_id m = list_all (\<lambda>(k, p). id_field p = k) m"

record server =
  payments :: payments_map
  calls :: "fetch_request list"  \<comment> \<open>the calls made to \<^verbatim>\<open>fetch\<close> so far\<close>

section \<open>Routes\<close>

text \<open>
  The six fields \<^verbatim>\<open>POST /api/payments\<close> reads from the request body, a JSON
  object; a field the body lacks is \<^verbatim>\<open>undefined\<close>.
\<close>

record req_body =
  req_amount :: jsval
  req_creditorIban :: jsval
  req_creditorName :: jsval
  req_reference :: jsval
  req_bankName :: jsval
  req_bankCountry :: jsval

text \<open>The four parameters \<^verbatim>\<open>GET /callback\<close> reads from \<^verbatim>\<open>req.query\<close>.\<close>

record query =
  code :: "qparam option"
  state :: "qparam option"
  error :: "qparam option"
  error_description :: "qparam option"

text \<open>
  The bodies the routes send. A page holds the parameters its template
  prints; printing them is taken to succeed.
\<close>

datatype http_body =
    ErrorJson string "req_body option"  \<comment> \<open>\<^verbatim>\<open>{ error, received: req.body }\<close>\<close>
  | CreatedJson jsval jsval payment  \<comment> \<open>\<^verbatim>\<open>{ success: true, paymentId, authUrl, payment }\<close>\<close>
  | PaymentJson payment
  | FailedPage qparam "qparam option"  \<comment> \<open>error, error_description\<close>
  | AuthorizedPage "qparam option" "qparam option"  \<comment> \<open>state, code\<close>
  | ErrorPage js_exception  \<comment> \<open>the page of Express for an exception no route caught\<close>

record http_response =
  http_status :: nat
  http_body :: http_body

text \<open>The \<^verbatim>\<open>catch\<close> block of a route: \<^verbatim>\<open>res.status(500).json({ error: error.message })\<close>.\<close>

definition internal_error :: "js_exception \<Rightarrow> http_response" where
  "internal_error err = \<lparr>http_status = 500, http_body = ErrorJson (message err) None\<rparr>"

text \<open>
  A route without \<^verbatim>\<open>try\<close>: when the handler throws, Express passes the
  exception to its default error handler, which answers with status 500.
\<close>

definition uncaught :: "js_exception \<Rightarrow> http_response" where
  "uncaught err = \<lparr>http_status = 500, http_body = ErrorPage err\<rparr>"

subsection \<open>POST /api/payments\<close>

text \<open>
  \<open>clock k\<close> is the \<open>k\<close>-th reading of the clock (\<^verbatim>\<open>Date.now()\<close>,
  \<^verbatim>\<open>new Date()\<close>) during one request, counted from 0.
\<close>

definition missing_required :: "req_body \<Rightarrow> bool" where
  "missing_required b =
     (\<not> truthy (req_amount b) \<or> \<not> truthy (req_creditorIban b) \<or> \<not> truthy (req_creditorName b)
      \<or> \<not> truthy (req_bankName b) \<or> \<not> truthy (req_bankCountry b))"

definition stateId :: "(nat \<Rightarrow> nat) \<Rightarrow> string" where
  "stateId clock = ''payment_'' @ dec (clock 0)"

definition paymentRequest :: "variant \<Rightarrow> env \<Rightarrow> (nat \<Rightarrow> nat) \<Rightarrow> req_body \<Rightarrow> string \<Rightarrow> jsval" where
  "paymentRequest v e clock b amount_string =
     (case v of
        ServerJs \<Rightarrow>
          JObj [
            (''aspsp'', JObj [(''name'', req_bankName b), (''country'', req_bankCountry b)]),
            (''state'', JStr (stateId clock)),
            (''redirect_url'', JStr (REDIRECT_URL e)),
            (''payment_request'', JObj [
              (''credit_transfer_payment'', JArr [JObj [
                (''instruction_id'', JStr (''INS'' @ dec (clock 1))),
                (''end_to_end_id'', JStr (''E2E'' @ dec (clock 2))),
                (''creditor'', JObj [(''name'', req_creditorName b)]),
                (''creditor_account'', JObj [(''iban'', req_creditorIban b)]),
                (''instructed_amount'',
                   JObj [(''currency'', JStr ''EUR''), (''amount'', JStr amount_string)]),
                (''remittance_information_unstructured'',
                   js_or (req_reference b) (JStr ''Payment''))]])])]
      | Part000 \<Rightarrow>
          JObj [
            (''aspsp'', JObj [(''name'', req_bankName b), (''country'', req_bankCountry b)]),
            (''state'', JStr (stateId clock)),
            (''redirect_url'', JStr (REDIRECT_URL e)),
            (''psu_type'', JStr ''personal''),
            (''payment_type'', JStr ''SEPA''),
            (''payment_request'', JObj [
              (''credit_transfer_transaction'', JArr [JObj [
                (''instruction_id'', JStr (''INS'' @ dec (clock 1))),
                (''end_to_end_id'', JStr (''E2E'' @ dec (clock 1))),
                (''beneficiary'', JObj [
                  (''creditor'', JObj [(''name'', req_creditorName b)]),
                  (''creditor_account'',
                     JObj [(''scheme_name'', JStr ''IBAN''),
                           (''identification'', req_creditorIban b)])]),
                (''instructed_amount'',
                   JObj [(''currency'', JStr ''EUR''), (''amount'', JStr amount_string)]),
                (''remittance_information_unstructured'',
                   js_or (req_reference b) (JStr ''Payment''))]])])])"

definition payments_path :: "variant \<Rightarrow> string" where
  "payments_path v = (case v of ServerJs \<Rightarrow> ''/pis/sessions'' | Part000 \<Rightarrow> ''/payments'')"

text \<open>
  The clock readings after the request is built: \<^verbatim>\<open>server.js\<close> has read the
  clock three times by then (state, instruction id, end-to-end id),
  \<^verbatim>\<open>part_000\<close> twice (state, timestamp).
\<close>

definition jwt_reading :: "variant \<Rightarrow> nat" where
  "jwt_reading v = (case v of ServerJs \<Rightarrow> 3 | Part000 \<Rightarrow> 2)"

definition new_payment ::
  "env \<Rightarrow> req_body \<Rightarrow> jsval \<Rightarrow> jsval \<Rightarrow> nat \<Rightarrow> jsval \<Rightarrow> payment" where
  "new_payment e b paymentId data_url created data_session_id =
     \<lparr>id_field = paymentId, amount = req_amount b, creditorIban = req_creditorIban b,
      creditorName = req_creditorName b, reference = req_reference b,
      bankName = req_bankName b, bankCountry = req_bankCountry b,
      status = JStr ''pending'', authUrl = data_url,
      createdAt = toISOString e created, sessionId = data_session_id,
      authCode = None\<rparr>"

definition createPayment ::
  "variant \<Rightarrow> env \<Rightarrow> (nat \<Rightarrow> nat) \<Rightarrow> req_body \<Rightarrow> server \<Rightarrow> http_response \<times> server" where
  "createPayment v e clock b s =
     (if missing_required b
      then (\<lparr>http_status = 400,
             http_body = ErrorJson ''Missing required fields''
                           (case v of ServerJs \<Rightarrow> None | Part000 \<Rightarrow> Some b)\<rparr>, s)
      else
        case toString e (req_amount b) of
          Inl err \<Rightarrow> (internal_error err, s)
        | Inr amount_string \<Rightarrow>
            (case enableBankingRequest v e (clock (jwt_reading v)) ''POST'' (payments_path v)
                    (paymentRequest v e clock b amount_string) (calls s) of
               (Inl err, cs) \<Rightarrow> (internal_error err, s\<lparr>calls := cs\<rparr>)
             | (Inr data, cs) \<Rightarrow>
                 (case get_prop data ''payment_id'' of
                    Inl err \<Rightarrow> (internal_error err, s\<lparr>calls := cs\<rparr>)
                  | Inr data_payment_id \<Rightarrow>
                 (case get_prop data ''url'' of
                    Inl err \<Rightarrow> (internal_error err, s\<lparr>calls := cs\<rparr>)
                  | Inr data_url \<Rightarrow>
                 (case get_prop data ''session_id'' of
                    Inl err \<Rightarrow> (internal_error err, s\<lparr>calls := cs\<rparr>)
                  | Inr data_session_id \<Rightarrow>
                      (let paymentId = js_or data_payment_id (JStr (stateId clock));
                           payment = new_payment e b paymentId data_url
                                       (clock (Suc (jwt_reading v))) data_session_id
                       in (\<lparr>http_status = 200,
                            http_body = CreatedJson paymentId data_url payment\<rparr>,
                           s\<lparr>payments := Map_set (payments s) paymentId payment,
                             calls := cs\<rparr>)))))))"

subsection \<open>GET /api/payments/:id\<close>

definition status_path :: "variant \<Rightarrow> string" where
  "status_path v = (case v of ServerJs \<Rightarrow> ''/pis/sessions/'' | Part000 \<Rightarrow> ''/payments/'')"

text \<open>
  Everything from the template literal to the update of the status is inside
  the inner \<^verbatim>\<open>try\<close>, whose \<^verbatim>\<open>catch\<close> only logs.
\<close>

definition getStatus ::
  "variant \<Rightarrow> env \<Rightarrow> (nat \<Rightarrow> nat) \<Rightarrow> string \<Rightarrow> server \<Rightarrow> http_response \<times> server" where
  "getStatus v e clock ident s =
     (case Map_get (payments s) (JStr ident) of
        None \<Rightarrow> (\<lparr>http_status = 404, http_body = ErrorJson ''Payment not found'' None\<rparr>, s)
      | Some payment \<Rightarrow>
          if truthy (sessionId payment)
          then
            (case toString e (sessionId payment) of
               Inl err \<Rightarrow> (\<lparr>http_status = 200, http_body = PaymentJson payment\<rparr>, s)
             | Inr sid \<Rightarrow>
                 (case enableBankingRequest v e (clock 0) ''GET'' (status_path v @ sid) JNull
                         (calls s) of
                    (Inl err, cs) \<Rightarrow>
                      (\<lparr>http_status = 200, http_body = PaymentJson payment\<rparr>, s\<lparr>calls := cs\<rparr>)
                  | (Inr data, cs) \<Rightarrow>
                      (case get_prop data ''status'' of
                         Inl err \<Rightarrow>
                           (\<lparr>http_status = 200, http_body = PaymentJson payment\<rparr>,
                            s\<lparr>calls := cs\<rparr>)
                       | Inr data_status \<Rightarrow>
                           if truthy data_status
                           then
                             (let payment' = payment\<lparr>status := data_status\<rparr>
                              in (\<lparr>http_status = 200, http_body = PaymentJson payment'\<rparr>,
                                  s\<lparr>payments := Map_set (payments s) (JStr ident) payment',
                                    calls := cs\<rparr>))
                           else
                             (\<lparr>http_status = 200, http_body = PaymentJson payment\<rparr>,
                              s\<lparr>calls := cs\<rparr>))))
          else (\<lparr>http_status = 200, http_body = PaymentJson payment\<rparr>, s))"

subsection \<open>GET /callback\<close>

text \<open>
  The loop over the entries of \<^verbatim>\<open>payments\<close>: the first entry whose payment id
  or key is the string \<open>st\<close> is marked authorized and the loop stops.
  \<^verbatim>\<open>payments.set(id, payment)\<close> there writes under the key just read, so the
  entry stays in its place.
\<close>

fun authorize_first :: "string \<Rightarrow> qparam option \<Rightarrow> payments_map \<Rightarrow> payments_map" where
  "authorize_first st cd [] = []"
| "authorize_first st cd ((k, payment) # rest) =
     (if id_field payment = JStr st \<or> k = JStr st
      then (k, payment\<lparr>status := JStr ''authorized'', authCode := cd\<rparr>) # rest
      else (k, payment) # authorize_first st cd rest)"

definition startsWith :: "string \<Rightarrow> string \<Rightarrow> bool" where
  "startsWith s p = prefix p s"

text \<open>The page sent when the callback carries no error.\<close>

definition authorized_page :: "query \<Rightarrow> http_response" where
  "authorized_page q =
     \<lparr>http_status = 200,
      http_body = AuthorizedPage (if truthy_q (state q) then state q else None)
                    (if truthy_q (code q) then code q else None)\<rparr>"

text \<open>
  The handler is synchronous and has no \<^verbatim>\<open>try\<close>. In
  \<^verbatim>\<open>state && state.startsWith('payment_')\<close> a \<^verbatim>\<open>state\<close> that is an array or an
  object is truthy and has no method \<^verbatim>\<open>startsWith\<close>, so the call throws a
  TypeError before the store is read.
\<close>

definition handleCallback :: "query \<Rightarrow> server \<Rightarrow> http_response \<times> server" where
  "handleCallback q s =
     (if truthy_q (error q)
      then (\<lparr>http_status = 200,
             http_body = FailedPage (the (error q))
                           (if truthy_q (error_description q) then error_description q
                            else None)\<rparr>, s)
      else
        (case state q of
           None \<Rightarrow> (authorized_page q, s)
         | Some (QString st) \<Rightarrow>
             (authorized_page q,
              if st \<noteq> [] \<and> startsWith st ''payment_''
              then s\<lparr>payments := authorize_first st (code q) (payments s)\<rparr>
              else s)
         | Some (QArray xs) \<Rightarrow>
             (uncaught (Exception ''TypeError'' ''state.startsWith is not a function''), s)
         | Some (QObject kvs) \<Rightarrow>
             (uncaught (Exception ''TypeError'' ''state.startsWith is not a function''), s)))"

section \<open>Example environments and inputs\<close>

text \<open>
  A configured environment whose \<^verbatim>\<open>fetch\<close> always gives the outcome \<open>outcome\<close> and
  whose \<^verbatim>\<open>JSON.parse\<close> gives \<open>parsed\<close>; the examples below pair every
  response text with the value \<^verbatim>\<open>JSON.parse\<close> has on that text.
\<close>

definition stub_env :: "fetch_outcome \<Rightarrow> js_exception + jsval \<Rightarrow> env" where
  "stub_env outcome parsed =
     \<lparr>APP_ID = Some ''app-1'', PRIVATE_KEY = Some ''private-key'',
      REDIRECT_URL = ''http://localhost:3000/callback'',
      jwt_sign = (\<lambda>p k h. Inr ''signed.jwt''),
      fetch = (\<lambda>r. outcome),
      JSON_parse = (\<lambda>t. parsed),
      number_toString = (\<lambda>r. ''100''),
      object_toString = (\<lambda>v. Inr ''[object Object]''),
      toISOString = (\<lambda>n. ''2024-01-01T00:00:00.000Z'')\<rparr>"

definition ok_response :: "string \<Rightarrow> fetch_outcome" where
  "ok_response txt = Responded \<lparr>ok = True, status_code = 200, body_text = txt\<rparr>"

text \<open>The request and the upstream response of scenario A of the specification.\<close>

definition scenario_body :: req_body where
  "scenario_body =
     \<lparr>req_amount = JNum 100, req_creditorIban = JStr ''FI00'',
      req_creditorName = JStr ''Jane Doe'', req_reference = JUndefined,
      req_bankName = JStr ''Nordea'', req_bankCountry = JStr ''FI''\<rparr>"

definition scenario_data :: jsval where
  "scenario_data =
     JObj [(''payment_id'', JStr ''p1''), (''url'', JStr ''https://bank/auth''),
           (''session_id'', JStr ''s1'')]"

definition scenario_text :: string where
  \<open>scenario_text = ''{"payment_id":"p1","url":"https://bank/auth","session_id":"s1"}''\<close>

definition empty_server :: server where
  "empty_server = \<lparr>payments = [], calls = []\<rparr>"

definition clock5 :: "nat \<Rightarrow> nat" where
  "clock5 = (\<lambda>k. 5)"

text \<open>A pending session stored under the id \<open>ident\<close>, with upstream session id \<open>sid\<close>.\<close>

definition pending_payment :: "string \<Rightarrow> jsval \<Rightarrow> payment" where
  "pending_payment ident sid =
     \<lparr>id_field = JStr ident, amount = JNum 100, creditorIban = JStr ''FI00'',
      creditorName = JStr ''Jane Doe'', reference = JUndefined,
      bankName = JStr ''Nordea'', bankCountry = JStr ''FI'',
      status = JStr ''pending'', authUrl = JStr ''https://bank/auth'',
      createdAt = ''2024-01-01T00:00:00.000Z'', sessionId = sid, authCode = None\<rparr>"

definition server_with :: "string \<Rightarrow> jsval \<Rightarrow> server" where
  "server_with ident sid = \<lparr>payments = [(JStr ident, pending_payment ident sid)], calls = []\<rparr>"

text \<open>Upstream responses used in the examples, each with its parsed value.\<close>

definition null_text :: string where
  "null_text = ''null''"

definition empty_id_text :: string where
  \<open>empty_id_text = ''{"payment_id":"","url":"https://bank/auth","session_id":"s1"}''\<close>

definition empty_id_data :: jsval where
  "empty_id_data =
     JObj [(''payment_id'', JStr []), (''url'', JStr ''https://bank/auth''),
           (''session_id'', JStr ''s1'')]"

definition status_text :: string where
  \<open>status_text = ''{"status":"ACSC"}''\<close>

definition status_data :: jsval where
  "status_data = JObj [(''status'', JStr ''ACSC'')]"

definition empty_status_text :: string where
  \<open>empty_status_text = ''{"status":""}''\<close>

definition empty_status_data :: jsval where
  "empty_status_data = JObj [(''status'', JStr [])]"

text \<open>Callback queries.\<close>

definition callback_query :: "string option \<Rightarrow> string option \<Rightarrow> string option \<Rightarrow> query" where
  "callback_query cd st err =
     \<lparr>code = map_option QString cd, state = map_option QString st,
      error = map_option QString err, error_description = None\<rparr>"

text \<open>The query of \<^verbatim>\<open>/callback?code=abc&state=a&state=b\<close>.\<close>

definition repeated_state_query :: query where
  "repeated_state_query =
     \<lparr>code = Some (QString ''abc''), state = Some (QArray [QString ''a'', QString ''b'']),
      error = None, error_description = None\<rparr>"

section \<open>Validation of a payment request\<close>

lemma createPayment_rejected:
  "missing_required b \<Longrightarrow>
   createPayment v e clock b s =
     (\<lparr>http_status = 400,
       http_body = ErrorJson ''Missing required fields''
                     (case v of ServerJs \<Rightarrow> None | Part000 \<Rightarrow> Some b)\<rparr>, s)"
  by (simp add: createPayment_def)

text \<open>
  C1. A payment request in which one of the required fields \<^verbatim>\<open>amount\<close>,
  \<^verbatim>\<open>creditorIban\<close>, \<^verbatim>\<open>creditorName\<close>, \<^verbatim>\<open>bankName\<close>, \<^verbatim>\<open>bankCountry\<close> is
  missing is answered with status 400 and the message
  \<^verbatim>\<open>Missing required fields\<close>; the server state is returned as it was, so
  the record of \<^verbatim>\<open>fetch\<close> calls has not grown and no session is stored.
  This holds in both source variants.
\<close>

theorem createPayment_missing_field:
  assumes "req_amount b = JUndefined \<or> req_creditorIban b = JUndefined
           \<or> req_creditorName b = JUndefined \<or> req_bankName b = JUndefined
           \<or> req_bankCountry b = JUndefined"
  shows "http_status (fst (createPayment v e clock b s)) = 400
         \<and> (\<exists>received. http_body (fst (createPayment v e clock b s))
                          = ErrorJson ''Missing required fields'' received)
         \<and> snd (createPayment v e clock b s) = s
         \<and> calls (snd (createPayment v e clock b s)) = calls s"
proof -
  from assms have "missing_required b"
    by (auto simp: missing_required_def)
  then show ?thesis
    by (simp add: createPayment_rejected)
qed

theorem createPayment_missing_field_witness:
  "req_amount (scenario_body\<lparr>req_amount := JUndefined\<rparr>) = JUndefined
   \<and> http_status (fst (createPayment Part000 (stub_env (ok_response scenario_text) (Inr scenario_data))
                          clock5 (scenario_body\<lparr>req_amount := JUndefined\<rparr>) empty_server)) = 400
   \<and> calls (snd (createPayment Part000 (stub_env (ok_response scenario_text) (Inr scenario_data))
                    clock5 (scenario_body\<lparr>req_amount := JUndefined\<rparr>) empty_server)) = []"
  using createPayment_missing_field
          [of "scenario_body\<lparr>req_amount := JUndefined\<rparr>" Part000
              "stub_env (ok_response scenario_text) (Inr scenario_data)" clock5 empty_server]
  by (simp add: empty_server_def)

text \<open>
  C10. The validation tests each required field for truthiness: a request
  whose \<^verbatim>\<open>amount\<close> is present but falsy, such as the number 0 or the empty
  string, is answered with status 400 and \<^verbatim>\<open>Missing required fields\<close>, and
  the server state, with its record of \<^verbatim>\<open>fetch\<close> calls, is returned as it was.
\<close>

theorem createPayment_falsy_amount:
  assumes "\<not> truthy (req_amount b)"
  shows "http_status (fst (createPayment v e clock b s)) = 400
         \<and> (\<exists>received. http_body (fst (createPayment v e clock b s))
                          = ErrorJson ''Missing required fields'' received)
         \<and> snd (createPayment v e clock b s) = s
         \<and> calls (snd (createPayment v e clock b s)) = calls s"
proof -
  from assms have "missing_required b"
    by (simp add: missing_required_def)
  then show ?thesis
    by (simp add: createPayment_rejected)
qed

theorem createPayment_falsy_amount_witness:
  "\<not> truthy (req_amount (scenario_body\<lparr>req_amount := JNum 0\<rparr>))
   \<and> http_status (fst (createPayment ServerJs (stub_env (ok_response scenario_text) (Inr scenario_data))
                          clock5 (scenario_body\<lparr>req_amount := JNum 0\<rparr>) empty_server)) = 400
   \<and> calls (snd (createPayment ServerJs (stub_env (ok_response scenario_text) (Inr scenario_data))
                    clock5 (scenario_body\<lparr>req_amount := JNum 0\<rparr>) empty_server)) = []
   \<and> \<not> truthy (req_amount (scenario_body\<lparr>req_amount := JStr []\<rparr>))
   \<and> http_status (fst (createPayment ServerJs (stub_env (ok_response scenario_text) (Inr scenario_data))
                          clock5 (scenario_body\<lparr>req_amount := JStr []\<rparr>) empty_server)) = 400"
  using createPayment_falsy_amount
          [of "scenario_body\<lparr>req_amount := JNum 0\<rparr>" ServerJs
              "stub_env (ok_response scenario_text) (Inr scenario_data)" clock5 empty_server]
        createPayment_falsy_amount
          [of "scenario_body\<lparr>req_amount := JStr []\<rparr>" ServerJs
              "stub_env (ok_response scenario_text) (Inr scenario_data)" clock5 empty_server]
  by (simp add: empty_server_def)

section \<open>Assertion signer and upstream client: properties\<close>

lemma dec_digit: "n < 10 \<Longrightarrow> dec n = [digit n]"
  by (simp add: dec.simps)

lemma dec_500: "dec 500 = ''500''"
  by (simp add: dec.simps [of 500] dec.simps [of 50] dec_digit digit_def)





lemma enableBankingRequest_signed:
  "generateJWT e t = Inr token \<Longrightarrow>
   enableBankingRequest v e t meth path bdy cs =
     (case fetch e (fetch_options meth path bdy token) of
        Rejected err \<Rightarrow> Inl err
      | Responded r \<Rightarrow>
          if ok r then parse_body v e (body_text r)
          else Inl (Exception ''Error''
                      (''API error: '' @ dec (status_code r) @ '' - '' @ body_text r)),
      cs @ [fetch_options meth path bdy token])"
  by (simp add: enableBankingRequest_def Let_def split: fetch_outcome.splits)

text \<open>The decimal rendering of a status determines the status.\<close>

lemma digit_in: "d < 10 \<Longrightarrow> digit d \<in> set ''0123456789''"
  unfolding digit_def by (rule nth_mem) simp

lemma digit_inj: "d < 10 \<Longrightarrow> d' < 10 \<Longrightarrow> digit d = digit d' \<Longrightarrow> d = d'"
  unfolding digit_def by (subst (asm) nth_eq_iff_index_eq) simp_all

lemma dec_not_empty: "dec n \<noteq> []"
  by (subst dec.simps) simp

lemma dec_digits: "set (dec n) \<subseteq> set ''0123456789''"
proof (induction n rule: dec.induct)
  case (1 n)
  show ?case
  proof (cases "n < 10")
    case True
    then show ?thesis
      using digit_in [of n] by (simp add: dec_digit)
  next
    case False
    have "digit (n mod 10) \<in> set ''0123456789''"
      by (rule digit_in) simp
    with False "1.IH" show ?thesis
      by (subst dec.simps) simp
  qed
qed

lemma dec_inj: "dec n = dec m \<Longrightarrow> n = m"
proof (induction n arbitrary: m rule: dec.induct)
  case (1 n)
  show ?case
  proof (cases "n < 10")
    case True
    with "1.prems" have one: "dec m = [digit n]"
      by (simp add: dec_digit)
    have "m < 10"
    proof (rule ccontr)
      assume "\<not> m < 10"
      then have "dec m = dec (m div 10) @ [digit (m mod 10)]"
        by (subst dec.simps) simp
      with one show False
        by (simp add: dec_not_empty)
    qed
    with one True show ?thesis
      by (auto simp: dec_digit dest: digit_inj)
  next
    case False
    then have n: "dec n = dec (n div 10) @ [digit (n mod 10)]"
      by (subst dec.simps) simp
    have "\<not> m < 10"
    proof
      assume "m < 10"
      with "1.prems" n show False
        by (simp add: dec_digit dec_not_empty)
    qed
    then have m: "dec m = dec (m div 10) @ [digit (m mod 10)]"
      by (subst dec.simps) simp
    from "1.prems" n m have "dec (n div 10) = dec (m div 10)"
      and d: "digit (n mod 10) = digit (m mod 10)"
      by simp_all
    with False "1.IH" have "n div 10 = m div 10"
      by simp
    moreover from d have "n mod 10 = m mod 10"
      by (rule digit_inj [rotated 2]) simp_all
    ultimately show ?thesis
      by (metis div_mult_mod_eq)
  qed
qed

lemma api_error_message_inj:
  assumes "''API error: '' @ dec n @ '' - '' @ x = ''API error: '' @ dec m @ '' - '' @ y"
  shows "n = m \<and> x = y"
proof -
  have no_space: "\<forall>c\<in>set (dec k). c \<noteq> CHR '' ''" for k
    using dec_digits [of k] by auto
  from assms have eq: "dec n @ '' - '' @ x = dec m @ '' - '' @ y"
    by simp
  have "takeWhile (\<lambda>c. c \<noteq> CHR '' '') (dec k @ '' - '' @ z) = dec k" for k z
    using no_space [of k] by (simp add: takeWhile_append2)
  with eq have "dec n = dec m"
    by metis
  with eq show ?thesis
    by (simp add: dec_inj)
qed

lemma createPayment_upstream_failed:
  assumes "\<not> missing_required b" and "toString e (req_amount b) = Inr a"
    and "enableBankingRequest v e (clock (jwt_reading v)) ''POST'' (payments_path v)
           (paymentRequest v e clock b a) (calls s) = (Inl err, cs)"
  shows "createPayment v e clock b s
           = (\<lparr>http_status = 500, http_body = ErrorJson (message err) None\<rparr>, s\<lparr>calls := cs\<rparr>)"
  using assms by (simp add: createPayment_def internal_error_def)

lemmas example_defs =
  stub_env_def ok_response_def scenario_body_def scenario_data_def empty_server_def clock5_def
  pending_payment_def server_with_def callback_query_def empty_id_data_def status_data_def
  empty_status_data_def

lemma dec_5: "dec 5 = ''5''"
  by (simp add: dec_digit digit_def)



text \<open>
  C7, as the code has it. When \<^verbatim>\<open>fetch\<close> answers with a status that is not a
  success, \<^verbatim>\<open>enableBankingRequest\<close> throws a plain \<^verbatim>\<open>Error\<close> whose message is
  \<^verbatim>\<open>API error: \<close> followed by the status, \<^verbatim>\<open> - \<close> and the raw response text;
  the status and the text are not fields of the error, but the message
  determines both. When \<^verbatim>\<open>fetch\<close> rejects because no response was received,
  \<^verbatim>\<open>enableBankingRequest\<close> throws what \<^verbatim>\<open>fetch\<close> rejected with, unchanged.
  \<^verbatim>\<open>POST /api/payments\<close> answers either failure with status 500 and the
  message of the error, and stores nothing.
\<close>

theorem upstream_failure_errors:
  assumes "generateJWT e t = Inr token"
  shows "(\<forall>r. fetch e (fetch_options meth path bdy token) = Responded r \<and> \<not> ok r \<longrightarrow>
            enableBankingRequest v e t meth path bdy cs
              = (Inl (Exception ''Error''
                        (''API error: '' @ dec (status_code r) @ '' - '' @ body_text r)),
                 cs @ [fetch_options meth path bdy token]))
         \<and> (\<forall>err. fetch e (fetch_options meth path bdy token) = Rejected err \<longrightarrow>
              enableBankingRequest v e t meth path bdy cs
                = (Inl err, cs @ [fetch_options meth path bdy token]))
         \<and> (\<forall>n m x y. ''API error: '' @ dec n @ '' - '' @ x = ''API error: '' @ dec m @ '' - '' @ y
                \<longrightarrow> n = m \<and> x = y)
         \<and> (\<forall>b clock s a err cs'.
                \<not> missing_required b \<and> toString e (req_amount b) = Inr a
                \<and> enableBankingRequest v e (clock (jwt_reading v)) ''POST'' (payments_path v)
                     (paymentRequest v e clock b a) (calls s) = (Inl err, cs') \<longrightarrow>
                createPayment v e clock b s
                  = (\<lparr>http_status = 500, http_body = ErrorJson (message err) None\<rparr>,
                     s\<lparr>calls := cs'\<rparr>))"
proof (intro conjI allI impI)
  fix r
  assume "fetch e (fetch_options meth path bdy token) = Responded r \<and> \<not> ok r"
  with assms show "enableBankingRequest v e t meth path bdy cs
              = (Inl (Exception ''Error''
                        (''API error: '' @ dec (status_code r) @ '' - '' @ body_text r)),
                 cs @ [fetch_options meth path bdy token])"
    by (simp add: enableBankingRequest_signed)
next
  fix err
  assume "fetch e (fetch_options meth path bdy token) = Rejected err"
  with assms show "enableBankingRequest v e t meth path bdy cs
                = (Inl err, cs @ [fetch_options meth path bdy token])"
    by (simp add: enableBankingRequest_signed)
next
  fix n m :: nat and x y :: string
  assume eq: "''API error: '' @ dec n @ '' - '' @ x = ''API error: '' @ dec m @ '' - '' @ y"
  from api_error_message_inj [OF eq] show "n = m" and "x = y"
    by (rule conjunct1, rule conjunct2)
next
  fix b clock a err cs' and s :: server
  assume "\<not> missing_required b \<and> toString e (req_amount b) = Inr a
          \<and> enableBankingRequest v e (clock (jwt_reading v)) ''POST'' (payments_path v)
               (paymentRequest v e clock b a) (calls s) = (Inl err, cs')"
  then have "\<not> missing_required b" and "toString e (req_amount b) = Inr a"
    and "enableBankingRequest v e (clock (jwt_reading v)) ''POST'' (payments_path v)
           (paymentRequest v e clock b a) (calls s) = (Inl err, cs')"
    by (rule conjunct1, rule conjunct2 [THEN conjunct1], rule conjunct2 [THEN conjunct2])
  then show "createPayment v e clock b s
                  = (\<lparr>http_status = 500, http_body = ErrorJson (message err) None\<rparr>,
                     s\<lparr>calls := cs'\<rparr>)"
    by (rule createPayment_upstream_failed)
qed

theorem upstream_failure_errors_witness:
  "enableBankingRequest Part000
     (stub_env (Responded \<lparr>ok = False, status_code = 500, body_text = ''boom''\<rparr>) (Inr JNull))
     5 ''POST'' ''/payments'' (paymentRequest Part000
        (stub_env (Responded \<lparr>ok = False, status_code = 500, body_text = ''boom''\<rparr>) (Inr JNull))
        clock5 scenario_body ''100'') []
     = (Inl (Exception ''Error'' ''API error: 500 - boom''),
        [fetch_options ''POST'' ''/payments'' (paymentRequest Part000
           (stub_env (Responded \<lparr>ok = False, status_code = 500, body_text = ''boom''\<rparr>) (Inr JNull))
           clock5 scenario_body ''100'') ''signed.jwt''])
   \<and> fst (createPayment Part000
           (stub_env (Responded \<lparr>ok = False, status_code = 500, body_text = ''boom''\<rparr>) (Inr JNull))
           clock5 scenario_body empty_server)
     = \<lparr>http_status = 500, http_body = ErrorJson ''API error: 500 - boom'' None\<rparr>
   \<and> fst (enableBankingRequest Part000
            (stub_env (Rejected (Exception ''TypeError'' ''fetch failed'')) (Inr JNull))
            5 ''GET'' ''/payments/s1'' JNull [])
     = Inl (Exception ''TypeError'' ''fetch failed'')"
proof -
  let ?answer = "\<lparr>ok = False, status_code = 500, body_text = ''boom''\<rparr>"
  let ?refusing = "stub_env (Responded ?answer) (Inr JNull)"
  let ?down = "stub_env (Rejected (Exception ''TypeError'' ''fetch failed'')) (Inr JNull)"
  let ?req = "paymentRequest Part000 ?refusing clock5 scenario_body ''100''"
  let ?call = "fetch_options ''POST'' ''/payments'' ?req ''signed.jwt''"
  have signed: "generateJWT (stub_env outcome parsed) 5 = Inr ''signed.jwt''" for outcome parsed
    by (simp add: generateJWT_def stub_env_def)
  note refusing = upstream_failure_errors
                    [OF signed, of "Responded ?answer" "Inr JNull" "''POST''" "''/payments''"
                       ?req Part000 "[]"]
  note down = upstream_failure_errors
                [OF signed, of "Rejected (Exception ''TypeError'' ''fetch failed'')" "Inr JNull"
                   "''GET''" "''/payments/s1''" JNull Part000 "[]"]
  have answer: "fetch ?refusing ?call = Responded ?answer \<and> \<not> ok ?answer"
    by (simp add: stub_env_def)
  from refusing [THEN conjunct1, rule_format, OF answer]
  have thrown: "enableBankingRequest Part000 ?refusing 5 ''POST'' ''/payments'' ?req []
      = (Inl (Exception ''Error'' ''API error: 500 - boom''), [?call])"
    by (simp add: dec_500)
  have valid: "\<not> missing_required scenario_body"
    by (simp add: missing_required_def scenario_body_def)
  have amount: "toString ?refusing (req_amount scenario_body) = Inr ''100''"
    by (simp add: scenario_body_def stub_env_def)
  have reading: "clock5 (jwt_reading Part000) = 5"
    by (simp add: clock5_def)
  have upstream: "\<not> missing_required scenario_body
      \<and> toString ?refusing (req_amount scenario_body) = Inr ''100''
      \<and> enableBankingRequest Part000 ?refusing (clock5 (jwt_reading Part000))
           ''POST'' (payments_path Part000) ?req (calls empty_server)
          = (Inl (Exception ''Error'' ''API error: 500 - boom''), [?call])"
    using valid amount thrown by (simp add: reading payments_path_def empty_server_def)
  from refusing [THEN conjunct2, THEN conjunct2, THEN conjunct2, rule_format, OF upstream]
  have answered: "fst (createPayment Part000 ?refusing clock5 scenario_body empty_server)
      = \<lparr>http_status = 500, http_body = ErrorJson ''API error: 500 - boom'' None\<rparr>"
    by simp
  have lost: "fetch ?down (fetch_options ''GET'' ''/payments/s1'' JNull ''signed.jwt'')
          = Rejected (Exception ''TypeError'' ''fetch failed'')"
    by (simp add: stub_env_def)
  from down [THEN conjunct2, THEN conjunct1, rule_format, OF lost]
  have propagated: "fst (enableBankingRequest Part000 ?down 5 ''GET'' ''/payments/s1'' JNull [])
      = Inl (Exception ''TypeError'' ''fetch failed'')"
    by simp
  from thrown answered propagated show ?thesis
    by (intro conjI)
qed

text \<open>
  C7, as the claim states it, fails: for the status 500 with the body
  \<^verbatim>\<open>boom\<close> the thrown value is \<^verbatim>\<open>new Error('API error: 500 - boom')\<close>, an
  error of the generic class \<^verbatim>\<open>Error\<close> that holds nothing but a message
  string; the status and the text are not fields of it.
\<close>

theorem upstream_error_is_generic:
  "fst (enableBankingRequest ServerJs
          (stub_env (Responded \<lparr>ok = False, status_code = 500, body_text = ''boom''\<rparr>) (Inr JNull))
          5000 ''GET'' ''/aspsps?country=FI'' JNull [])
     = Inl (Exception ''Error'' ''API error: 500 - boom'')"
  by (simp add: enableBankingRequest_def generateJWT_def stub_env_def Let_def dec_500)

text \<open>
  C8. In \<^verbatim>\<open>server.js\<close> a success response whose body is not JSON makes the
  call fail: \<^verbatim>\<open>response.json()\<close> rejects with the SyntaxError of the parser.
  The input here is the status 200 with the body \<^verbatim>\<open>OK\<close>.
\<close>

theorem server_js_rejects_non_json:
  "fst (enableBankingRequest ServerJs
          (stub_env (ok_response ''OK'') (Inl (Exception ''SyntaxError'' ''Unexpected token O in JSON at position 0'')))
          5000 ''GET'' ''/aspsps?country=FI'' JNull [])
     = Inl (Exception ''SyntaxError'' ''Unexpected token O in JSON at position 0'')"
  by (simp add: enableBankingRequest_def generateJWT_def stub_env_def Let_def ok_response_def parse_body_def)

text \<open>\<^verbatim>\<open>part_000\<close> does pass such a body through, as \<^verbatim>\<open>{ raw: responseText }\<close>.\<close>

lemma part000_raw_fallback:
  assumes "generateJWT e t = Inr token"
    and "fetch e (fetch_options meth path bdy token) = Responded r" and "ok r"
    and "JSON_parse e (body_text r) = Inl err"
  shows "fst (enableBankingRequest Part000 e t meth path bdy cs) = Inr (JObj [(''raw'', JStr (body_text r))])"
  using assms by (simp add: enableBankingRequest_def Let_def parse_body_def)


section \<open>Session store: properties\<close>

lemma authorize_first_keyed:
  "keyed_by_id m \<Longrightarrow> keyed_by_id (authorize_first tok cd m)"
  by (induction m) (auto simp: keyed_by_id_def)

lemma keyed_update:
  "keyed_by_id m \<Longrightarrow> id_field p = k \<Longrightarrow> keyed_by_id (AList.update k p m)"
  by (induction m) (auto simp: keyed_by_id_def)

lemma keyed_Map_set:
  "keyed_by_id m \<Longrightarrow> id_field p = k \<Longrightarrow> keyed_by_id (Map_set m k p)"
  by (simp add: Map_set_def keyed_update) (simp add: keyed_by_id_def)

lemma keyed_map_of:
  "keyed_by_id m \<Longrightarrow> map_of m k = Some p \<Longrightarrow> id_field p = k"
  by (induction m) (auto simp: keyed_by_id_def split: if_splits)

lemma Map_set_entry: "(k, p) \<in> set (Map_set m k p)"
  by (induction m) (auto simp: Map_set_def)

lemma Map_get_set: "\<not> is_ref k \<Longrightarrow> Map_get (Map_set m k p) k = Some p"
  by (simp add: Map_get_def Map_set_def update_conv')

lemma Map_get_set_other:
  "\<not> is_ref k \<Longrightarrow> k' \<noteq> k \<Longrightarrow> Map_get (Map_set m k p) k' = Map_get m k'"
  by (simp add: Map_get_def Map_set_def update_conv')

lemma get_prop_defined:
  "data \<noteq> JNull \<Longrightarrow> data \<noteq> JUndefined \<Longrightarrow> \<exists>x. get_prop data name = Inr x"
  by (cases data) simp_all

lemma authorize_first_no_match:
  "\<forall>(k, p)\<in>set m. id_field p \<noteq> JStr tok \<and> k \<noteq> JStr tok \<Longrightarrow> authorize_first tok cd m = m"
  by (induction m) auto

lemma authorize_first_map_of:
  "keyed_by_id m \<Longrightarrow>
   map_of (authorize_first tok cd m) k =
     (if k = JStr tok
      then map_option (\<lambda>p. p\<lparr>status := JStr ''authorized'', authCode := cd\<rparr>) (map_of m k)
      else map_of m k)"
  by (induction m) (auto simp: keyed_by_id_def)

lemma authorize_first_again:
  "authorize_first tok cd (authorize_first tok cd m) = authorize_first tok cd m"
  by (induction m) auto

lemma handleCallback_error:
  "truthy_q (error q) \<Longrightarrow>
   handleCallback q s =
     (\<lparr>http_status = 200,
       http_body = FailedPage (the (error q))
                     (if truthy_q (error_description q) then error_description q else None)\<rparr>, s)"
  by (simp add: handleCallback_def)

lemma createPayment_keyed:
  "keyed_by_id (payments s) \<Longrightarrow> keyed_by_id (payments (snd (createPayment v e clock b s)))"
  by (auto simp: createPayment_def Let_def new_payment_def keyed_Map_set
           split: sum.splits prod.splits)

lemma getStatus_keyed:
  assumes "keyed_by_id (payments s)"
  shows "keyed_by_id (payments (snd (getStatus v e clock ident s)))"
proof (cases "Map_get (payments s) (JStr ident)")
  case None
  with assms show ?thesis
    by (simp add: getStatus_def)
next
  case (Some p)
  with assms have "id_field p = JStr ident"
    by (auto simp: Map_get_def dest: keyed_map_of)
  with assms have "keyed_by_id (Map_set (payments s) (JStr ident) (p\<lparr>status := x\<rparr>))" for x
    by (simp add: keyed_Map_set)
  with assms Some show ?thesis
    by (auto simp: getStatus_def Let_def split: sum.splits prod.splits)
qed

lemma handleCallback_keyed:
  "keyed_by_id (payments s) \<Longrightarrow> keyed_by_id (payments (snd (handleCallback q s)))"
  by (simp add: handleCallback_def authorize_first_keyed split: option.splits qparam.splits)

section \<open>Creating a payment\<close>

text \<open>
  C2, as the code has it. Take a payment request that passes the validation
  and whose upstream call returns a value \<open>data\<close> other than \<^verbatim>\<open>null\<close>. Then
  the route answers 200 and stores a new session with status \<^verbatim>\<open>pending\<close>.
  Its id is \<^verbatim>\<open>data.payment_id\<close> when that value is truthy (a non-empty string,
  for one), and the locally generated correlation token \<^verbatim>\<open>payment_<time>\<close>
  otherwise, that is when the response has no \<^verbatim>\<open>payment_id\<close> or a falsy one.
  The session is the store's entry under that id, and a lookup by that id
  (a string, number or boolean) returns it.
\<close>

theorem createPayment_stores_pending:
  assumes "\<not> missing_required b"
    and "toString e (req_amount b) = Inr a"
    and "enableBankingRequest v e (clock (jwt_reading v)) ''POST'' (payments_path v)
           (paymentRequest v e clock b a) (calls s) = (Inr data, cs)"
    and "data \<noteq> JNull" and "data \<noteq> JUndefined"
  shows "\<exists>pid u sid paymentId payment.
           get_prop data ''payment_id'' = Inr pid \<and> get_prop data ''url'' = Inr u
           \<and> get_prop data ''session_id'' = Inr sid
           \<and> paymentId = (if truthy pid then pid else JStr (stateId clock))
           \<and> payment = new_payment e b paymentId u (clock (Suc (jwt_reading v))) sid
           \<and> createPayment v e clock b s
               = (\<lparr>http_status = 200, http_body = CreatedJson paymentId u payment\<rparr>,
                  s\<lparr>payments := Map_set (payments s) paymentId payment, calls := cs\<rparr>)
           \<and> status payment = JStr ''pending'' \<and> id_field payment = paymentId
           \<and> (paymentId, payment) \<in> set (payments (snd (createPayment v e clock b s)))
           \<and> (\<not> is_ref paymentId \<longrightarrow>
                 Map_get (payments (snd (createPayment v e clock b s))) paymentId = Some payment)"
proof -
  from assms(4,5) obtain pid where pid: "get_prop data ''payment_id'' = Inr pid"
    using get_prop_defined by blast
  from assms(4,5) obtain u where u: "get_prop data ''url'' = Inr u"
    using get_prop_defined by blast
  from assms(4,5) obtain sid where sid: "get_prop data ''session_id'' = Inr sid"
    using get_prop_defined by blast
  define paymentId where "paymentId = (if truthy pid then pid else JStr (stateId clock))"
  define payment where "payment = new_payment e b paymentId u (clock (Suc (jwt_reading v))) sid"
  have run: "createPayment v e clock b s
               = (\<lparr>http_status = 200, http_body = CreatedJson paymentId u payment\<rparr>,
                  s\<lparr>payments := Map_set (payments s) paymentId payment, calls := cs\<rparr>)"
    using assms(1,2,3) pid u sid
    by (simp add: createPayment_def js_or_def Let_def paymentId_def payment_def)
  have fields: "status payment = JStr ''pending'' \<and> id_field payment = paymentId"
    by (simp add: payment_def new_payment_def)
  have entry: "(paymentId, payment) \<in> set (payments (snd (createPayment v e clock b s)))"
    by (simp add: run Map_set_entry)
  have lookup: "\<not> is_ref paymentId \<longrightarrow>
                 Map_get (payments (snd (createPayment v e clock b s))) paymentId = Some payment"
    by (simp add: run Map_get_set)
  from pid u sid paymentId_def payment_def run fields entry lookup show ?thesis
    by blast
qed

theorem createPayment_stores_pending_witness:
  "\<not> missing_required scenario_body
   \<and> toString (stub_env (ok_response scenario_text) (Inr scenario_data)) (req_amount scenario_body)
       = Inr ''100''
   \<and> fst (enableBankingRequest ServerJs (stub_env (ok_response scenario_text) (Inr scenario_data))
            5 ''POST'' ''/pis/sessions''
            (paymentRequest ServerJs (stub_env (ok_response scenario_text) (Inr scenario_data))
               clock5 scenario_body ''100'') []) = Inr scenario_data
   \<and> http_status (fst (createPayment ServerJs (stub_env (ok_response scenario_text) (Inr scenario_data))
                          clock5 scenario_body empty_server)) = 200
   \<and> Map_get (payments (snd (createPayment ServerJs
                  (stub_env (ok_response scenario_text) (Inr scenario_data))
                  clock5 scenario_body empty_server))) (JStr ''p1'')
       = Some (new_payment (stub_env (ok_response scenario_text) (Inr scenario_data)) scenario_body
                 (JStr ''p1'') (JStr ''https://bank/auth'') 5 (JStr ''s1''))"
proof -
  let ?e = "stub_env (ok_response scenario_text) (Inr scenario_data)"
  let ?req = "paymentRequest ServerJs ?e clock5 scenario_body ''100''"
  have valid: "\<not> missing_required scenario_body"
    by (simp add: missing_required_def scenario_body_def)
  have amount: "toString ?e (req_amount scenario_body) = Inr ''100''"
    by (simp add: scenario_body_def stub_env_def)
  have up: "enableBankingRequest ServerJs ?e (clock5 (jwt_reading ServerJs)) ''POST''
              (payments_path ServerJs) ?req (calls empty_server)
            = (Inr scenario_data, [fetch_options ''POST'' ''/pis/sessions'' ?req ''signed.jwt''])"
    by (simp add: enableBankingRequest_def generateJWT_def stub_env_def ok_response_def
          parse_body_def payments_path_def empty_server_def Let_def)
  have nn: "scenario_data \<noteq> JNull" "scenario_data \<noteq> JUndefined"
    by (simp_all add: scenario_data_def)
  from createPayment_stores_pending [OF valid amount up nn]
  obtain pid u sid paymentId payment where
    pid: "get_prop scenario_data ''payment_id'' = Inr pid"
    and u: "get_prop scenario_data ''url'' = Inr u"
    and sid: "get_prop scenario_data ''session_id'' = Inr sid"
    and paymentId: "paymentId = (if truthy pid then pid else JStr (stateId clock5))"
    and payment: "payment = new_payment ?e scenario_body paymentId u
                              (clock5 (Suc (jwt_reading ServerJs))) sid"
    and run: "createPayment ServerJs ?e clock5 scenario_body empty_server
                = (\<lparr>http_status = 200, http_body = CreatedJson paymentId u payment\<rparr>,
                   empty_server\<lparr>payments := Map_set (payments empty_server) paymentId payment,
                     calls := [fetch_options ''POST'' ''/pis/sessions'' ?req ''signed.jwt'']\<rparr>)"
    and lookup: "\<not> is_ref paymentId \<longrightarrow>
                   Map_get (payments (snd (createPayment ServerJs ?e clock5 scenario_body
                                             empty_server))) paymentId = Some payment"
    by blast
  from pid u sid have parsed: "pid = JStr ''p1''" "u = JStr ''https://bank/auth''" "sid = JStr ''s1''"
    by (simp_all add: scenario_data_def)
  with paymentId have key: "paymentId = JStr ''p1''"
    by simp
  have created: "clock5 (Suc (jwt_reading ServerJs)) = 5"
    by (simp add: clock5_def)
  from run have code200: "http_status (fst (createPayment ServerJs ?e clock5 scenario_body empty_server)) = 200"
    by simp
  from lookup key payment parsed created
  have stored: "Map_get (payments (snd (createPayment ServerJs ?e clock5 scenario_body empty_server)))
                  (JStr ''p1'')
                = Some (new_payment ?e scenario_body (JStr ''p1'') (JStr ''https://bank/auth'') 5
                          (JStr ''s1''))"
    by simp
  have up': "fst (enableBankingRequest ServerJs ?e 5 ''POST'' ''/pis/sessions'' ?req []) = Inr scenario_data"
    using up by (simp add: jwt_reading_def clock5_def payments_path_def empty_server_def)
  from valid amount up' code200 stored show ?thesis
    by simp
qed

text \<open>
  C2, as the claim states it, fails on two inputs. When the upstream answers
  200 with the body \<^verbatim>\<open>null\<close>, the upstream call succeeds with the value
  \<^verbatim>\<open>null\<close>, reading \<^verbatim>\<open>data.payment_id\<close> throws, the route answers 500 and
  no session is stored. When the upstream returns the payment identifier
  \<^verbatim>\<open>""\<close>, the session is stored under the correlation token
  \<^verbatim>\<open>payment_5\<close> and nothing is stored under the returned identifier.
\<close>

theorem createPayment_id_counterexample:
  "fst (enableBankingRequest ServerJs (stub_env (ok_response null_text) (Inr JNull))
          5 ''POST'' ''/pis/sessions''
          (paymentRequest ServerJs (stub_env (ok_response null_text) (Inr JNull))
             clock5 scenario_body ''100'') []) = Inr JNull
   \<and> http_status (fst (createPayment ServerJs (stub_env (ok_response null_text) (Inr JNull))
                          clock5 scenario_body empty_server)) = 500
   \<and> payments (snd (createPayment ServerJs (stub_env (ok_response null_text) (Inr JNull))
                       clock5 scenario_body empty_server)) = []
   \<and> get_prop empty_id_data ''payment_id'' = Inr (JStr [])
   \<and> Map_get (payments (snd (createPayment ServerJs
                  (stub_env (ok_response empty_id_text) (Inr empty_id_data))
                  clock5 scenario_body empty_server))) (JStr []) = None
   \<and> map fst (payments (snd (createPayment ServerJs
                  (stub_env (ok_response empty_id_text) (Inr empty_id_data))
                  clock5 scenario_body empty_server))) = [JStr ''payment_5'']"
  by (simp add: createPayment_def enableBankingRequest_def generateJWT_def parse_body_def
        missing_required_def internal_error_def js_or_def stateId_def dec_5 Map_set_def
        Map_get_def Let_def example_defs)

section \<open>Status of a payment\<close>

text \<open>
  C5, as the code has it. \<^verbatim>\<open>GET /api/payments/:id\<close> answers 404 when the id
  is not in the store and leaves the state as it was. For a stored session
  without an upstream session id (\<^verbatim>\<open>sessionId\<close> undefined or otherwise falsy)
  it answers with the session and leaves the state, with its record of
  \<^verbatim>\<open>fetch\<close> calls, as it was. For a stored session with an upstream session
  id: when the upstream call succeeds and the response has a truthy
  \<^verbatim>\<open>status\<close> (a non-empty string, for one), that value replaces the stored
  status as it is, and the updated session is answered and stored; when the
  upstream call fails, the error is dropped and the stored session is
  answered unchanged.
\<close>

theorem getStatus_cases:
  "(Map_get (payments s) (JStr ident) = None \<longrightarrow>
      getStatus v e clock ident s
        = (\<lparr>http_status = 404, http_body = ErrorJson ''Payment not found'' None\<rparr>, s))
   \<and> (\<forall>p. Map_get (payments s) (JStr ident) = Some p \<and> \<not> truthy (sessionId p) \<longrightarrow>
          getStatus v e clock ident s = (\<lparr>http_status = 200, http_body = PaymentJson p\<rparr>, s))
   \<and> (\<forall>p sid data cs x.
          Map_get (payments s) (JStr ident) = Some p \<and> truthy (sessionId p)
          \<and> toString e (sessionId p) = Inr sid
          \<and> enableBankingRequest v e (clock 0) ''GET'' (status_path v @ sid) JNull (calls s)
              = (Inr data, cs)
          \<and> get_prop data ''status'' = Inr x \<and> truthy x \<longrightarrow>
          getStatus v e clock ident s
            = (\<lparr>http_status = 200, http_body = PaymentJson (p\<lparr>status := x\<rparr>)\<rparr>,
               s\<lparr>payments := Map_set (payments s) (JStr ident) (p\<lparr>status := x\<rparr>), calls := cs\<rparr>)
          \<and> Map_get (payments (snd (getStatus v e clock ident s))) (JStr ident)
              = Some (p\<lparr>status := x\<rparr>))
   \<and> (\<forall>p sid err cs.
          Map_get (payments s) (JStr ident) = Some p \<and> truthy (sessionId p)
          \<and> toString e (sessionId p) = Inr sid
          \<and> enableBankingRequest v e (clock 0) ''GET'' (status_path v @ sid) JNull (calls s)
              = (Inl err, cs) \<longrightarrow>
          getStatus v e clock ident s
            = (\<lparr>http_status = 200, http_body = PaymentJson p\<rparr>, s\<lparr>calls := cs\<rparr>))"
proof -
  have unknown: "Map_get (payments s) (JStr ident) = None \<longrightarrow>
      getStatus v e clock ident s
        = (\<lparr>http_status = 404, http_body = ErrorJson ''Payment not found'' None\<rparr>, s)"
    by (simp add: getStatus_def)
  have local: "\<forall>p. Map_get (payments s) (JStr ident) = Some p \<and> \<not> truthy (sessionId p) \<longrightarrow>
          getStatus v e clock ident s = (\<lparr>http_status = 200, http_body = PaymentJson p\<rparr>, s)"
    by (simp add: getStatus_def)
  have overwrite: "\<forall>p sid data cs x.
          Map_get (payments s) (JStr ident) = Some p \<and> truthy (sessionId p)
          \<and> toString e (sessionId p) = Inr sid
          \<and> enableBankingRequest v e (clock 0) ''GET'' (status_path v @ sid) JNull (calls s)
              = (Inr data, cs)
          \<and> get_prop data ''status'' = Inr x \<and> truthy x \<longrightarrow>
          getStatus v e clock ident s
            = (\<lparr>http_status = 200, http_body = PaymentJson (p\<lparr>status := x\<rparr>)\<rparr>,
               s\<lparr>payments := Map_set (payments s) (JStr ident) (p\<lparr>status := x\<rparr>), calls := cs\<rparr>)
          \<and> Map_get (payments (snd (getStatus v e clock ident s))) (JStr ident)
              = Some (p\<lparr>status := x\<rparr>)"
    by (simp add: getStatus_def Let_def Map_get_set)
  have swallowed: "\<forall>p sid err cs.
          Map_get (payments s) (JStr ident) = Some p \<and> truthy (sessionId p)
          \<and> toString e (sessionId p) = Inr sid
          \<and> enableBankingRequest v e (clock 0) ''GET'' (status_path v @ sid) JNull (calls s)
              = (Inl err, cs) \<longrightarrow>
          getStatus v e clock ident s
            = (\<lparr>http_status = 200, http_body = PaymentJson p\<rparr>, s\<lparr>calls := cs\<rparr>)"
    by (simp add: getStatus_def)
  from unknown local overwrite swallowed show ?thesis
    by blast
qed

theorem getStatus_cases_witness:
  "getStatus ServerJs (stub_env (ok_response status_text) (Inr status_data)) clock5 ''unknown''
     (server_with ''p1'' (JStr ''s1''))
     = (\<lparr>http_status = 404, http_body = ErrorJson ''Payment not found'' None\<rparr>,
        server_with ''p1'' (JStr ''s1''))
   \<and> getStatus ServerJs (stub_env (ok_response status_text) (Inr status_data)) clock5 ''p1''
       (server_with ''p1'' JUndefined)
     = (\<lparr>http_status = 200, http_body = PaymentJson (pending_payment ''p1'' JUndefined)\<rparr>,
        server_with ''p1'' JUndefined)
   \<and> fst (getStatus ServerJs (stub_env (ok_response status_text) (Inr status_data)) clock5 ''p1''
            (server_with ''p1'' (JStr ''s1'')))
     = \<lparr>http_status = 200,
        http_body = PaymentJson (pending_payment ''p1'' (JStr ''s1'')\<lparr>status := JStr ''ACSC''\<rparr>)\<rparr>
   \<and> Map_get (payments (snd (getStatus ServerJs (stub_env (ok_response status_text) (Inr status_data))
                                 clock5 ''p1'' (server_with ''p1'' (JStr ''s1''))))) (JStr ''p1'')
     = Some (pending_payment ''p1'' (JStr ''s1'')\<lparr>status := JStr ''ACSC''\<rparr>)
   \<and> fst (getStatus ServerJs (stub_env (Rejected (Exception ''TypeError'' ''fetch failed'')) (Inr JNull)) clock5 ''p1''
            (server_with ''p1'' (JStr ''s1'')))
     = \<lparr>http_status = 200, http_body = PaymentJson (pending_payment ''p1'' (JStr ''s1''))\<rparr>
   \<and> payments (snd (getStatus ServerJs (stub_env (Rejected (Exception ''TypeError'' ''fetch failed'')) (Inr JNull))
                       clock5 ''p1'' (server_with ''p1'' (JStr ''s1''))))
     = payments (server_with ''p1'' (JStr ''s1''))"
proof -
  let ?e = "stub_env (ok_response status_text) (Inr status_data)"
  let ?down = "stub_env (Rejected (Exception ''TypeError'' ''fetch failed'')) (Inr JNull)"
  let ?s = "server_with ''p1'' (JStr ''s1'')"
  let ?p = "pending_payment ''p1'' (JStr ''s1'')"
  let ?call = "fetch_options ''GET'' ''/pis/sessions/s1'' JNull ''signed.jwt''"
  have unknown: "Map_get (payments ?s) (JStr ''unknown'') = None"
    by (simp add: Map_get_def server_with_def)
  have local: "Map_get (payments (server_with ''p1'' JUndefined)) (JStr ''p1'')
                 = Some (pending_payment ''p1'' JUndefined)
               \<and> \<not> truthy (sessionId (pending_payment ''p1'' JUndefined))"
    by (simp add: Map_get_def server_with_def pending_payment_def)
  have stored: "Map_get (payments ?s) (JStr ''p1'') = Some ?p"
    by (simp add: Map_get_def server_with_def)
  have sid: "truthy (sessionId ?p)" "toString e (sessionId ?p) = Inr ''s1''" for e
    by (simp_all add: pending_payment_def)
  have up: "enableBankingRequest ServerJs ?e (clock5 0) ''GET'' (status_path ServerJs @ ''s1'') JNull
              (calls ?s) = (Inr status_data, [?call])"
    by (simp add: enableBankingRequest_def generateJWT_def stub_env_def ok_response_def
          parse_body_def status_path_def server_with_def Let_def)
  have st: "get_prop status_data ''status'' = Inr (JStr ''ACSC'')" "truthy (JStr ''ACSC'')"
    by (simp_all add: status_data_def)
  have down: "enableBankingRequest ServerJs ?down (clock5 0) ''GET'' (status_path ServerJs @ ''s1'')
                JNull (calls ?s) = (Inl (Exception ''TypeError'' ''fetch failed''), [?call])"
    by (simp add: enableBankingRequest_def generateJWT_def stub_env_def status_path_def
          server_with_def Let_def)
  note cases1 = getStatus_cases [of ?s "''unknown''" ServerJs ?e clock5]
  note cases2 = getStatus_cases [of "server_with ''p1'' JUndefined" "''p1''" ServerJs ?e clock5]
  note cases3 = getStatus_cases [of ?s "''p1''" ServerJs ?e clock5]
  note cases4 = getStatus_cases [of ?s "''p1''" ServerJs ?down clock5]
  from cases1 unknown have r1: "getStatus ServerJs ?e clock5 ''unknown'' ?s
     = (\<lparr>http_status = 404, http_body = ErrorJson ''Payment not found'' None\<rparr>, ?s)"
    by blast
  from cases2 local have r2: "getStatus ServerJs ?e clock5 ''p1'' (server_with ''p1'' JUndefined)
     = (\<lparr>http_status = 200, http_body = PaymentJson (pending_payment ''p1'' JUndefined)\<rparr>,
        server_with ''p1'' JUndefined)"
    by blast
  from cases3 stored sid up st
  have r3: "getStatus ServerJs ?e clock5 ''p1'' ?s
            = (\<lparr>http_status = 200, http_body = PaymentJson (?p\<lparr>status := JStr ''ACSC''\<rparr>)\<rparr>,
               ?s\<lparr>payments := Map_set (payments ?s) (JStr ''p1'') (?p\<lparr>status := JStr ''ACSC''\<rparr>),
                 calls := [?call]\<rparr>)
          \<and> Map_get (payments (snd (getStatus ServerJs ?e clock5 ''p1'' ?s))) (JStr ''p1'')
              = Some (?p\<lparr>status := JStr ''ACSC''\<rparr>)"
    by blast
  from cases4 stored sid down
  have r4: "getStatus ServerJs ?down clock5 ''p1'' ?s
            = (\<lparr>http_status = 200, http_body = PaymentJson ?p\<rparr>, ?s\<lparr>calls := [?call]\<rparr>)"
    by blast
  from r1 r2 r3 r4 show ?thesis
    by (simp add: Map_get_set)
qed

text \<open>
  C5, as the claim states it, fails when the upstream response carries the
  status string \<^verbatim>\<open>""\<close>: the re-query succeeds, and the stored status stays
  \<^verbatim>\<open>pending\<close> instead of becoming that string.
\<close>

theorem getStatus_empty_status_counterexample:
  "fst (enableBankingRequest ServerJs (stub_env (ok_response empty_status_text) (Inr empty_status_data))
          5 ''GET'' ''/pis/sessions/s1'' JNull []) = Inr empty_status_data
   \<and> get_prop empty_status_data ''status'' = Inr (JStr [])
   \<and> Map_get (payments (server_with ''p1'' (JStr ''s1''))) (JStr ''p1'')
       = Some (pending_payment ''p1'' (JStr ''s1''))
   \<and> fst (getStatus ServerJs (stub_env (ok_response empty_status_text) (Inr empty_status_data))
            clock5 ''p1'' (server_with ''p1'' (JStr ''s1'')))
       = \<lparr>http_status = 200, http_body = PaymentJson (pending_payment ''p1'' (JStr ''s1''))\<rparr>
   \<and> Map_get (payments (snd (getStatus ServerJs
                  (stub_env (ok_response empty_status_text) (Inr empty_status_data))
                  clock5 ''p1'' (server_with ''p1'' (JStr ''s1''))))) (JStr ''p1'')
       = Some (pending_payment ''p1'' (JStr ''s1''))
   \<and> status (pending_payment ''p1'' (JStr ''s1'')) = JStr ''pending''"
  by (simp add: getStatus_def enableBankingRequest_def generateJWT_def parse_body_def
        status_path_def Map_get_def Let_def stub_env_def ok_response_def server_with_def
        pending_payment_def empty_status_data_def clock5_def)

section \<open>Bank callback\<close>

text \<open>
  C4, as the code has it. When the \<^verbatim>\<open>error\<close> parameter of the callback is
  truthy (a non-empty string, or a repeated parameter), the server state is
  returned as it was, the answer is the failure page for that error, and the
  answer is the same for any \<^verbatim>\<open>state\<close> and \<^verbatim>\<open>code\<close> parameters and any
  store: the store is not consulted.
\<close>

theorem handleCallback_error_no_mutation:
  assumes "truthy_q (error q)"
  shows "snd (handleCallback q s) = s
         \<and> http_status (fst (handleCallback q s)) = 200
         \<and> http_body (fst (handleCallback q s))
             = FailedPage (the (error q))
                 (if truthy_q (error_description q) then error_description q else None)
         \<and> fst (handleCallback (q\<lparr>state := tok, code := cd\<rparr>) s') = fst (handleCallback q s)"
  using assms by (simp add: handleCallback_error)

theorem handleCallback_error_no_mutation_witness:
  "truthy_q (error (callback_query (Some ''abc'') (Some ''payment_12345'') (Some ''access_denied'')))
   \<and> handleCallback (callback_query (Some ''abc'') (Some ''payment_12345'') (Some ''access_denied''))
        (server_with ''payment_12345'' (JStr ''s1''))
       = (\<lparr>http_status = 200, http_body = FailedPage (QString ''access_denied'') None\<rparr>,
          server_with ''payment_12345'' (JStr ''s1''))"
  using handleCallback_error_no_mutation
          [of "callback_query (Some ''abc'') (Some ''payment_12345'') (Some ''access_denied'')"
              "server_with ''payment_12345'' (JStr ''s1'')"]
  by (simp add: callback_query_def prod_eq_iff)

text \<open>
  C4, as the claim states it, fails when the \<^verbatim>\<open>error\<close> parameter is present
  and empty (\<^verbatim>\<open>/callback?error=&state=payment_12345&code=abc\<close>): the session
  stored under the token is set to \<^verbatim>\<open>authorized\<close> with the code.
\<close>

theorem handleCallback_empty_error_counterexample:
  "error (callback_query (Some ''abc'') (Some ''payment_12345'') (Some [])) \<noteq> None
   \<and> Map_get (payments (server_with ''payment_12345'' (JStr ''s1''))) (JStr ''payment_12345'')
       = Some (pending_payment ''payment_12345'' (JStr ''s1''))
   \<and> Map_get (payments (snd (handleCallback
                  (callback_query (Some ''abc'') (Some ''payment_12345'') (Some []))
                  (server_with ''payment_12345'' (JStr ''s1''))))) (JStr ''payment_12345'')
       = Some (pending_payment ''payment_12345'' (JStr ''s1'')
                 \<lparr>status := JStr ''authorized'', authCode := Some (QString ''abc'')\<rparr>)"
  by (simp add: handleCallback_def callback_query_def server_with_def startsWith_def Map_get_def
        pending_payment_def)

text \<open>
  C9. The callback \<^verbatim>\<open>/callback?code=abc&state=a&state=b\<close> has no \<^verbatim>\<open>error\<close>
  parameter and its \<^verbatim>\<open>state\<close> matches no stored session. Its \<^verbatim>\<open>state\<close> is
  an array, \<^verbatim>\<open>state.startsWith\<close> is not a function, the handler throws and the
  answer has status 500; the store is as it was.
\<close>

theorem handleCallback_repeated_state:
  "error repeated_state_query = None
   \<and> handleCallback repeated_state_query (server_with ''payment_12345'' (JStr ''s1''))
       = (\<lparr>http_status = 500,
           http_body = ErrorPage (Exception ''TypeError'' ''state.startsWith is not a function'')\<rparr>,
          server_with ''payment_12345'' (JStr ''s1''))"
  by (simp add: handleCallback_def repeated_state_query_def uncaught_def)

text \<open>
  When the \<^verbatim>\<open>state\<close> is absent or a string, a callback without \<^verbatim>\<open>error\<close>
  whose \<^verbatim>\<open>state\<close> is absent, or does not start with \<^verbatim>\<open>payment_\<close>, or is
  neither the key nor the id of any stored session, is answered with status
  200 and the page of a successful authorization, and the server state is
  returned as it was.
\<close>

lemma handleCallback_orphan:
  assumes "error q = None"
    and "state q = None
         \<or> (\<exists>tok. state q = Some (QString tok)
               \<and> (\<not> startsWith tok ''payment_''
                    \<or> (\<forall>(k, p)\<in>set (payments s). id_field p \<noteq> JStr tok \<and> k \<noteq> JStr tok)))"
  shows "handleCallback q s = (authorized_page q, s)"
    and "http_status (authorized_page q) = 200"
  using assms by (auto simp: handleCallback_def authorized_page_def authorize_first_no_match)

text \<open>
  C3, as the code has it. Let the store hold a session under the key
  \<open>tok\<close>, where \<open>tok\<close> starts with \<^verbatim>\<open>payment_\<close> and every entry is keyed by
  its payment's id. A callback without an \<^verbatim>\<open>error\<close> parameter whose
  \<^verbatim>\<open>state\<close> is \<open>tok\<close> sets that session's status to \<^verbatim>\<open>authorized\<close> and its
  authorization code to the callback's \<^verbatim>\<open>code\<close>, and changes no other
  session. A second such callback leaves the status \<^verbatim>\<open>authorized\<close> and stores
  the code it carries: when that is the code of the first callback, the
  server state after the second callback is the state after the first.
\<close>

theorem handleCallback_authorizes:
  assumes "keyed_by_id (payments s)"
    and "Map_get (payments s) (JStr tok) = Some p"
    and "startsWith tok ''payment_''"
    and "error q = None" and "state q = Some (QString tok)"
  shows "Map_get (payments (snd (handleCallback q s))) (JStr tok)
           = Some (p\<lparr>status := JStr ''authorized'', authCode := code q\<rparr>)
         \<and> (\<forall>k. k \<noteq> JStr tok \<longrightarrow>
               Map_get (payments (snd (handleCallback q s))) k = Map_get (payments s) k)
         \<and> (\<forall>q2. error q2 = None \<and> state q2 = Some (QString tok) \<longrightarrow>
               Map_get (payments (snd (handleCallback q2 (snd (handleCallback q s))))) (JStr tok)
                 = Some (p\<lparr>status := JStr ''authorized'', authCode := code q2\<rparr>)
               \<and> (code q2 = code q \<longrightarrow>
                     snd (handleCallback q2 (snd (handleCallback q s))) = snd (handleCallback q s)))"
proof -
  from assms(3) have ne: "tok \<noteq> []"
    by (auto simp: startsWith_def)
  have step: "payments (snd (handleCallback r x)) = authorize_first tok (code r) (payments x)"
    if "error r = None" "state r = Some (QString tok)" for r x
    using that assms(3) ne by (simp add: handleCallback_def)
  have rest: "snd (handleCallback r x) = x\<lparr>payments := authorize_first tok (code r) (payments x)\<rparr>"
    if "error r = None" "state r = Some (QString tok)" for r x
    using that assms(3) ne by (simp add: handleCallback_def)
  let ?s1 = "snd (handleCallback q s)"
  have p1: "payments ?s1 = authorize_first tok (code q) (payments s)"
    using assms(4,5) by (rule step)
  have first: "Map_get (payments ?s1) (JStr tok)
           = Some (p\<lparr>status := JStr ''authorized'', authCode := code q\<rparr>)"
    using assms(1,2) by (simp add: p1 Map_get_def authorize_first_map_of)
  have others: "\<forall>k. k \<noteq> JStr tok \<longrightarrow> Map_get (payments ?s1) k = Map_get (payments s) k"
    using assms(1) by (simp add: p1 Map_get_def authorize_first_map_of)
  have k1: "keyed_by_id (payments ?s1)"
    using assms(1) by (simp add: p1 authorize_first_keyed)
  have second: "Map_get (payments (snd (handleCallback q2 ?s1))) (JStr tok)
                 = Some (p\<lparr>status := JStr ''authorized'', authCode := code q2\<rparr>)
               \<and> (code q2 = code q \<longrightarrow> snd (handleCallback q2 ?s1) = ?s1)"
    if "error q2 = None \<and> state q2 = Some (QString tok)" for q2
  proof -
    from that have e2: "error q2 = None" and s2: "state q2 = Some (QString tok)"
      by simp_all
    have "Map_get (payments (snd (handleCallback q2 ?s1))) (JStr tok)
            = Some (p\<lparr>status := JStr ''authorized'', authCode := code q2\<rparr>)"
      using k1 first by (simp add: step [OF e2 s2] Map_get_def authorize_first_map_of)
    moreover have "snd (handleCallback q2 ?s1) = ?s1" if "code q2 = code q"
      using that by (simp add: rest [OF e2 s2] rest [OF assms(4,5)] authorize_first_again)
    ultimately show ?thesis
      by simp
  qed
  from first others second show ?thesis
    by blast
qed

theorem handleCallback_authorizes_witness:
  "keyed_by_id (payments (server_with ''payment_12345'' (JStr ''s1'')))
   \<and> startsWith ''payment_12345'' ''payment_''
   \<and> Map_get (payments (server_with ''payment_12345'' (JStr ''s1''))) (JStr ''payment_12345'')
       = Some (pending_payment ''payment_12345'' (JStr ''s1''))
   \<and> Map_get (payments (snd (handleCallback
                  (callback_query (Some ''abc'') (Some ''payment_12345'') None)
                  (server_with ''payment_12345'' (JStr ''s1''))))) (JStr ''payment_12345'')
       = Some (pending_payment ''payment_12345'' (JStr ''s1'')
                 \<lparr>status := JStr ''authorized'', authCode := Some (QString ''abc'')\<rparr>)
   \<and> snd (handleCallback (callback_query (Some ''abc'') (Some ''payment_12345'') None)
          (snd (handleCallback (callback_query (Some ''abc'') (Some ''payment_12345'') None)
                  (server_with ''payment_12345'' (JStr ''s1'')))))
       = snd (handleCallback (callback_query (Some ''abc'') (Some ''payment_12345'') None)
                (server_with ''payment_12345'' (JStr ''s1'')))"
proof -
  let ?q = "callback_query (Some ''abc'') (Some ''payment_12345'') None"
  let ?s = "server_with ''payment_12345'' (JStr ''s1'')"
  have keyed: "keyed_by_id (payments ?s)"
    by (simp add: keyed_by_id_def server_with_def pending_payment_def)
  have stored: "Map_get (payments ?s) (JStr ''payment_12345'')
                  = Some (pending_payment ''payment_12345'' (JStr ''s1''))"
    by (simp add: Map_get_def server_with_def)
  have pre: "startsWith ''payment_12345'' ''payment_''"
    by (simp add: startsWith_def)
  have noerr: "error ?q = None" and tok: "state ?q = Some (QString ''payment_12345'')"
    by (simp_all add: callback_query_def)
  note result = handleCallback_authorizes [OF keyed stored pre noerr tok]
  from result have first: "Map_get (payments (snd (handleCallback ?q ?s))) (JStr ''payment_12345'')
       = Some (pending_payment ''payment_12345'' (JStr ''s1'')
                 \<lparr>status := JStr ''authorized'', authCode := Some (QString ''abc'')\<rparr>)"
    by (simp add: callback_query_def)
  from result noerr tok have replay: "snd (handleCallback ?q (snd (handleCallback ?q ?s)))
                                       = snd (handleCallback ?q ?s)"
    by blast
  from keyed pre stored first replay show ?thesis
    by simp
qed

text \<open>
  C3, as the claim states it, fails on two inputs. A pending session stored
  under the upstream payment id \<^verbatim>\<open>p1\<close> stays \<^verbatim>\<open>pending\<close> after a callback
  whose \<^verbatim>\<open>state\<close> is \<^verbatim>\<open>p1\<close>, since the token lacks the prefix
  \<^verbatim>\<open>payment_\<close>. And after a first callback with the code \<^verbatim>\<open>abc\<close>, a second
  callback with the same token and the code \<^verbatim>\<open>xyz\<close> replaces the recorded
  code by \<^verbatim>\<open>xyz\<close>.
\<close>

theorem handleCallback_replay_counterexample:
  "Map_get (payments (server_with ''p1'' (JStr ''s1''))) (JStr ''p1'')
     = Some (pending_payment ''p1'' (JStr ''s1''))
   \<and> Map_get (payments (snd (handleCallback (callback_query (Some ''abc'') (Some ''p1'') None)
                                 (server_with ''p1'' (JStr ''s1''))))) (JStr ''p1'')
       = Some (pending_payment ''p1'' (JStr ''s1''))
   \<and> status (pending_payment ''p1'' (JStr ''s1'')) = JStr ''pending''
   \<and> map_option authCode
        (Map_get (payments (snd (handleCallback
                    (callback_query (Some ''xyz'') (Some ''payment_12345'') None)
                    (snd (handleCallback
                            (callback_query (Some ''abc'') (Some ''payment_12345'') None)
                            (server_with ''payment_12345'' (JStr ''s1''))))))) (JStr ''payment_12345''))
       = Some (Some (QString ''xyz''))"
  by (simp add: handleCallback_def callback_query_def server_with_def startsWith_def Map_get_def
        pending_payment_def)


end
